theory Spec2Isabelle
  imports Main "HOL-Library.AList"
begin

section \<open>JavaScript values\<close>

text \<open>
  The program is JavaScript (src/util/submit-addon.js). What the server sends is parsed
  JSON, typed \<open>any\<close> in the source, so the model works on JavaScript values. Numbers are
  the integers: the program reads numbers only as ids and HTTP status codes.
\<close>

datatype jsval =
    JUndefined
  | JNull
  | JBool bool
  | JNum int
  | JStr string
  | JArr "jsval list"
  | JObj "(string \<times> jsval) list"

text \<open>
  A thrown value: \<open>Error m\<close> is \<open>new Error(m)\<close>, \<open>TypeError m\<close> is what the language
  raises itself, \<open>PlatformError name m\<close> is an error of a library or of the system
  (a network failure, a JSON syntax error, a file system error). The wording of a
  TypeError is the engine's; the program reads none of it.
\<close>

datatype error = Error string | TypeError string | PlatformError string string

text \<open>The three ways an awaited call ends; \<open>Pending\<close> is a promise that never settles.\<close>

datatype 'a outcome = Returned 'a | Thrown error | Pending

fun error_name :: "error \<Rightarrow> string" where
  "error_name (Error m) = ''Error''"
| "error_name (TypeError m) = ''TypeError''"
| "error_name (PlatformError n m) = n"

fun error_message :: "error \<Rightarrow> string" where
  "error_message (Error m) = m"
| "error_message (TypeError m) = m"
| "error_message (PlatformError n m) = m"

text \<open>\<open>`${error}`\<close>: Error.prototype.toString.\<close>

definition error_to_string :: "error \<Rightarrow> string" where
  "error_to_string e =
     (if error_message e = [] then error_name e
      else if error_name e = [] then error_message e
      else error_name e @ '': '' @ error_message e)"

text \<open>ToBoolean, as \<open>if (x)\<close>, \<open>!x\<close>, \<open>x || y\<close> and \<open>x && y\<close> read a value.\<close>

fun truthy :: "jsval \<Rightarrow> bool" where
  "truthy JUndefined = False"
| "truthy JNull = False"
| "truthy (JBool b) = b"
| "truthy (JNum n) = (n \<noteq> 0)"
| "truthy (JStr s) = (s \<noteq> [])"
| "truthy (JArr xs) = True"
| "truthy (JObj kvs) = True"

text \<open>
  \<open>v.k\<close>, and \<open>const {k} = v\<close>: reading a property of \<open>undefined\<close> or \<open>null\<close> throws
  a TypeError; an object gives its own property or \<open>undefined\<close>; a string, a number, a
  boolean and an array have none of the property names the program reads.
\<close>

fun getProp :: "jsval \<Rightarrow> string \<Rightarrow> error + jsval" where
  "getProp JUndefined k =
     Inl (TypeError (''Cannot read properties of undefined (reading '' @ k @ '')''))"
| "getProp JNull k =
     Inl (TypeError (''Cannot read properties of null (reading '' @ k @ '')''))"
| "getProp (JObj kvs) k = Inr (case map_of kvs k of None \<Rightarrow> JUndefined | Some v \<Rightarrow> v)"
| "getProp v k = Inr JUndefined"

text \<open>Decimal digits of a number, as a template literal prints it.\<close>

function show_nat :: "nat \<Rightarrow> string" where
  "show_nat n =
     (if n < 10 then [''0123456789'' ! n]
      else show_nat (n div 10) @ [''0123456789'' ! (n mod 10)])"
  by pat_completeness auto
termination
  by (relation "measure id") auto

declare show_nat.simps [simp del]

definition show_int :: "int \<Rightarrow> string" where
  "show_int i = (if i < 0 then CHR ''-'' # show_nat (nat (- i)) else show_nat (nat i))"

fun join_comma :: "string list \<Rightarrow> string" where
  "join_comma [] = []"
| "join_comma [s] = s"
| "join_comma (s # t # ss) = s @ '','' @ join_comma (t # ss)"

fun sequence_sum :: "('e + 'a) list \<Rightarrow> 'e + 'a list" where
  "sequence_sum [] = Inr []"
| "sequence_sum (x # xs) =
     (case x of
        Inl e \<Rightarrow> Inl e
      | Inr a \<Rightarrow> (case sequence_sum xs of Inl e \<Rightarrow> Inl e | Inr as \<Rightarrow> Inr (a # as)))"

text \<open>
  ToString, as a template literal \<open>`${v}`\<close> applies it. An array joins its elements
  with commas (\<open>undefined\<close> and \<open>null\<close> elements print empty). An object prints
  \<open>[object Object]\<close>, unless parsed JSON gave it an own property \<open>toString\<close>: that property is no
  function, \<open>valueOf\<close> returns the object itself, so the conversion to a primitive
  finds no method that returns one and throws a TypeError.
\<close>

fun to_string :: "jsval \<Rightarrow> error + string" where
  "to_string JUndefined = Inr ''undefined''"
| "to_string JNull = Inr ''null''"
| "to_string (JBool b) = Inr (if b then ''true'' else ''false'')"
| "to_string (JNum n) = Inr (show_int n)"
| "to_string (JStr s) = Inr s"
| "to_string (JArr xs) =
     (case sequence_sum
        (map (\<lambda>x. if x = JUndefined \<or> x = JNull then Inr [] else to_string x) xs) of
        Inl e \<Rightarrow> Inl e
      | Inr ss \<Rightarrow> Inr (join_comma ss))"
| "to_string (JObj kvs) =
     (if map_of kvs ''toString'' = None then Inr ''[object Object]''
      else Inl (TypeError ''Cannot convert object to primitive value''))"


text \<open>
  The own enumerable properties an object spread \<open>{...v}\<close> copies: those of an
  object, the indexed elements of an array and of a string, none of anything else.
\<close>

fun indexed :: "nat \<Rightarrow> 'a list \<Rightarrow> (string \<times> 'a) list" where
  "indexed i [] = []"
| "indexed i (x # xs) = (show_nat i, x) # indexed (Suc i) xs"

fun spread :: "jsval \<Rightarrow> (string \<times> jsval) list" where
  "spread (JObj kvs) = kvs"
| "spread (JArr xs) = indexed 0 xs"
| "spread (JStr s) = indexed 0 (map (\<lambda>ch. JStr [ch]) s)"
| "spread v = []"


text \<open>\<open>s.split(c)\<close> for a one-character separator; the result is never empty.\<close>

fun split_on :: "char \<Rightarrow> string \<Rightarrow> string list" where
  "split_on c [] = [[]]"
| "split_on c (x # xs) =
     (if x = c then [] # split_on c xs
      else (case split_on c xs of [] \<Rightarrow> [[x]] | s # ss \<Rightarrow> (x # s) # ss))"

section \<open>The platform: URLs, HTTP, files, time\<close>

text \<open>
  URLs are kept as the program builds them: \<open>URL s\<close> is \<open>new URL(s)\<close>,
  \<open>URLRel r b\<close> is \<open>new URL(r, b)\<close>, \<open>URLSlash u\<close> is a copy of \<open>u\<close> with \<open>/\<close>
  appended to its pathname. What the platform's URL parser makes of them (whether a
  string parses, the pathname, the href) is a field of the world, as are the file
  system (\<open>stat_isFile\<close>: what \<open>stat\<close> and \<open>isFile()\<close> give for a path; \<open>fs_write\<close>:
  the error writing to a path ends in, if any) and \<open>process.cwd()\<close>.
\<close>

datatype url = URL string | URLRel string url | URLSlash url

datatype formval = FormString string | FormFile string

text \<open>A request body: none, a FormData, or the string \<open>JSON.stringify(v)\<close>.\<close>

datatype reqbody = NoBody | FormBody "(string \<times> formval) list" | JsonBody jsval

text \<open>A response body stream, with the error its piping to a file ends in, if any.\<close>

datatype body = Body "error option"

text \<open>
  A Response as the program reads it: \<open>json\<close> is what \<open>await response.json()\<close> gives
  (it throws when the body is not JSON).
\<close>

record response =
  status :: nat
  statusText :: string
  ok :: bool
  json :: "error + jsval"
  body :: "body option"

datatype timer_name = AbortTimeout | CheckTimeout

text \<open>A line of the log: \<open>log.info(s)\<close>, \<open>log.info(s, v)\<close>, \<open>log.debug(s)\<close>.\<close>

datatype log_entry = LogInfo string | LogInfoData string jsval | LogDebug string

text \<open>
  What the program does to the world: it logs, calls \<open>nodeFetch\<close> (URL, method, body,
  headers), writes a file, pipes a body to a file, sets and clears timers, and calls
  \<open>resolve\<close> and \<open>reject\<close>; \<open>TimerFires\<close> marks the run of a timer's callback.
\<close>

datatype event =
    Log log_entry
  | Fetch url string reqbody "(string \<times> string) list"
  | WriteFile string string
  | SaveToFile string
  | SetTimeout timer_name nat
  | TimerFires timer_name
  | ClearTimeout timer_name
  | Resolve jsval
  | Reject error

text \<open>
  The world the program runs in. \<open>now\<close> is the clock in milliseconds, \<open>events\<close> what
  the program has done so far, each with its time. \<open>net\<close> scripts the network: the
  n-th request sent takes the n-th entry, which gives how long the request is in flight
  and how \<open>nodeFetch\<close> settles; a request sent when the script is used up never
  settles. The other fields are the platform and are never changed.
\<close>

record world =
  now :: nat
  net :: "(nat \<times> (error + response)) list"
  events :: "(nat \<times> event) list"
  url_valid :: "string \<Rightarrow> bool"
  url_pathname :: "url \<Rightarrow> string"
  url_href :: "url \<Rightarrow> string"
  stat_isFile :: "string \<Rightarrow> error + bool"
  fs_write :: "string \<Rightarrow> error option"
  cwd :: string

definition emit :: "event \<Rightarrow> world \<Rightarrow> world" where
  "emit e w = w\<lparr>events := events w @ [(now w, e)]\<rparr>"

fun emits :: "event list \<Rightarrow> world \<Rightarrow> world" where
  "emits [] w = w"
| "emits (e # es) w = emits es (emit e w)"

definition log :: "log_entry \<Rightarrow> world \<Rightarrow> world" where
  "log l w = emit (Log l) w"

definition logs :: "log_entry list \<Rightarrow> world \<Rightarrow> world" where
  "logs ls w = emits (map Log ls) w"

text \<open>Sequencing of awaited calls: a throw or a promise that never settles ends the caller.\<close>

definition bind :: "'a outcome \<times> world \<Rightarrow> ('a \<Rightarrow> world \<Rightarrow> 'b outcome \<times> world)
    \<Rightarrow> 'b outcome \<times> world" where
  "bind m k =
     (case m of
        (Returned a, w) \<Rightarrow> k a w
      | (Thrown e, w) \<Rightarrow> (Thrown e, w)
      | (Pending, w) \<Rightarrow> (Pending, w))"

definition of_sum :: "error + 'a \<Rightarrow> world \<Rightarrow> 'a outcome \<times> world" where
  "of_sum r w = (case r of Inl e \<Rightarrow> (Thrown e, w) | Inr a \<Rightarrow> (Returned a, w))"

section \<open>The client\<close>

text \<open>
  \<open>apiAuth\<close> is what \<open>await this.apiAuth.getAuthHeader()\<close> gives: the header, or the
  error the signing of the token ends in.
\<close>

record client =
  apiAuth :: "error + string"
  apiUrl :: url
  validationCheckInterval :: nat
  validationCheckTimeout :: nat
  approvalCheckInterval :: nat
  approvalCheckTimeout :: nat
  downloadDir :: string
  userAgentString :: string

text \<open>The constructor's parameters; \<open>None\<close> is a parameter left \<open>undefined\<close>.\<close>

record client_params =
  p_apiAuth :: "error + string"
  p_baseUrl :: url
  p_validationCheckInterval :: "nat option"
  p_validationCheckTimeout :: "nat option"
  p_approvalCheckInterval :: "nat option"
  p_approvalCheckTimeout :: "nat option"
  p_downloadDir :: "string option"
  p_userAgentString :: string

definition ends_with_slash :: "string \<Rightarrow> bool" where
  "ends_with_slash s = (s \<noteq> [] \<and> last s = CHR ''/'')"

text \<open>\<open>Client.constructor\<close>.\<close>

definition Client :: "world \<Rightarrow> client_params \<Rightarrow> client" where
  "Client w p =
     (let baseUrl =
            (if \<not> ends_with_slash (url_pathname w (p_baseUrl p))
             then URLSlash (p_baseUrl p) else p_baseUrl p)
      in \<lparr> apiAuth = p_apiAuth p,
           apiUrl = URLRel ''addons/'' baseUrl,
           validationCheckInterval =
             (case p_validationCheckInterval p of None \<Rightarrow> 1000 | Some n \<Rightarrow> n),
           validationCheckTimeout =
             (case p_validationCheckTimeout p of None \<Rightarrow> 300000 | Some n \<Rightarrow> n),
           approvalCheckInterval =
             (case p_approvalCheckInterval p of None \<Rightarrow> 1000 | Some n \<Rightarrow> n),
           approvalCheckTimeout =
             (case p_approvalCheckTimeout p of None \<Rightarrow> 900000 | Some n \<Rightarrow> n),
           downloadDir = (case p_downloadDir p of None \<Rightarrow> cwd w | Some d \<Rightarrow> d),
           userAgentString = p_userAgentString p \<rparr>)"

subsection \<open>fetch and fetchJson\<close>

text \<open>
  \<open>fetch\<close> in two halves. \<open>fetch_send\<close> runs up to the call of \<open>nodeFetch\<close>: it logs
  the URL, awaits the auth header (which may throw) and sends the request with its
  headers. \<open>fetch_receive\<close> awaits the response: it takes the next entry of the script
  and moves the clock on by the time in flight.
\<close>

definition fetch_headers :: "client \<Rightarrow> string \<Rightarrow> reqbody \<Rightarrow> (string \<times> string) list" where
  "fetch_headers c auth b =
     [(''Authorization'', auth), (''Accept'', ''application/json''),
      (''User-Agent'', userAgentString c)]
     @ (case b of JsonBody v \<Rightarrow> [(''Content-Type'', ''application/json'')] | _ \<Rightarrow> [])"

definition fetch_send :: "client \<Rightarrow> url \<Rightarrow> string \<Rightarrow> reqbody \<Rightarrow> world
    \<Rightarrow> error option \<times> world" where
  "fetch_send c u m b w =
     (let w1 = log (LogInfo (''Fetching URL: '' @ url_href w u)) w in
      case apiAuth c of
        Inl e \<Rightarrow> (Some e, w1)
      | Inr auth \<Rightarrow> (None, emit (Fetch u m b (fetch_headers c auth b)) w1))"

definition fetch_receive :: "world \<Rightarrow> response outcome \<times> world" where
  "fetch_receive w =
     (case net w of
        [] \<Rightarrow> (Pending, w)
      | (d, r) # rest \<Rightarrow> of_sum r (w\<lparr>now := now w + d, net := rest\<rparr>))"

definition fetch :: "client \<Rightarrow> url \<Rightarrow> string \<Rightarrow> reqbody \<Rightarrow> world
    \<Rightarrow> response outcome \<times> world" where
  "fetch c u m b w =
     (case fetch_send c u m b w of
        (Some e, w1) \<Rightarrow> (Thrown e, w1)
      | (None, w1) \<Rightarrow> fetch_receive w1)"

text \<open>\<open>`${errorMsg}: ${response.statusText || response.status}.`\<close>\<close>

definition status_error :: "string \<Rightarrow> response \<Rightarrow> error" where
  "status_error errorMsg r =
     Error (errorMsg @ '': ''
            @ (if statusText r \<noteq> [] then statusText r else show_nat (status r)) @ ''.'')"

text \<open>
  \<open>fetchJson\<close> after \<open>await this.fetch(...)\<close>: what it logs, and how it ends, for a
  response.
\<close>

definition fetchJson_response :: "string \<Rightarrow> response \<Rightarrow> log_entry list \<times> (error + jsval)" where
  "fetchJson_response errorMsg r =
     (if status r < 200 \<or> status r \<ge> 500 then ([], Inl (status_error errorMsg r))
      else case json r of
             Inl e \<Rightarrow> ([], Inl e)
           | Inr data \<Rightarrow>
               if \<not> ok r
               then ([LogInfoData ''Server Response:'' data], Inl (status_error errorMsg r))
               else ([], Inr data))"

definition fetchJson :: "client \<Rightarrow> url \<Rightarrow> string \<Rightarrow> reqbody \<Rightarrow> string \<Rightarrow> world
    \<Rightarrow> jsval outcome \<times> world" where
  "fetchJson c u m b errorMsg w =
     bind (fetch c u m b w)
       (\<lambda>r w1. case fetchJson_response errorMsg r of
                  (ls, res) \<Rightarrow> of_sum res (logs ls w1))"

subsection \<open>waitRetry\<close>

text \<open>
  A timer variable: never assigned, armed and due at a time, fired, or cleared.
  \<open>clearTimeout\<close> stops an armed timer and does nothing to any other.
\<close>

datatype timer = Unset | Due nat | Fired | Cleared

definition clearTimeout :: "timer \<Rightarrow> timer" where
  "clearTimeout t = (case t of Due d \<Rightarrow> Cleared | _ \<Rightarrow> t)"

text \<open>
  The state of one call of \<open>waitRetry\<close>: its two timers and the promise it returned
  (\<open>None\<close> while pending, then the value it resolved with or the error it rejected
  with). \<open>resolve\<close> and \<open>reject\<close> settle a pending promise and do nothing to a
  settled one.
\<close>

record waiter =
  abortTimeout :: timer
  checkTimeout :: timer
  promise :: "(error + jsval) option"

definition settle :: "error + jsval \<Rightarrow> waiter \<Rightarrow> waiter" where
  "settle r s = (if promise s = None then s\<lparr>promise := Some r\<rparr> else s)"

text \<open>The callback of the abort timer, run at the time \<open>t\<close> the timer is due.\<close>

definition abort_fires :: "string \<Rightarrow> nat \<Rightarrow> waiter \<times> world \<Rightarrow> waiter \<times> world" where
  "abort_fires context t sw =
     (case sw of (s, w) \<Rightarrow>
        (settle (Inl (Error (context @ '': timeout.'')))
           (s\<lparr>abortTimeout := Fired, checkTimeout := clearTimeout (checkTimeout s)\<rparr>),
         emits [TimerFires AbortTimeout, ClearTimeout CheckTimeout,
                Reject (Error (context @ '': timeout.''))] (w\<lparr>now := t\<rparr>)))"

text \<open>
  The program waits until time \<open>t\<close> (for a response or for the poll timer): the abort
  timer fires in between when it is armed and due by then. A timer due at the very
  time of the awaited event runs first, as the event loop runs timers before I/O
  callbacks and timers of equal time in the order they were set.
\<close>

definition wait_until :: "string \<Rightarrow> nat \<Rightarrow> waiter \<times> world \<Rightarrow> waiter \<times> world" where
  "wait_until context t sw =
     (case abortTimeout (fst sw) of
        Due d \<Rightarrow> if d \<le> t then abort_fires context d sw else sw
      | _ \<Rightarrow> sw)"

text \<open>A request that never settles: only the abort timer is left to run.\<close>

definition wait_forever :: "string \<Rightarrow> waiter \<times> world \<Rightarrow> waiter \<times> world" where
  "wait_forever context sw =
     (case abortTimeout (fst sw) of
        Due d \<Rightarrow> abort_fires context d sw
      | _ \<Rightarrow> sw)"

text \<open>The \<open>catch\<close> block of \<open>pollStatus\<close>, and its \<open>if (success)\<close> branch.\<close>

definition poll_catch :: "error \<Rightarrow> waiter \<times> world \<Rightarrow> waiter \<times> world" where
  "poll_catch e sw =
     (case sw of (s, w) \<Rightarrow>
        (settle (Inl e) (s\<lparr>abortTimeout := clearTimeout (abortTimeout s)\<rparr>),
         emits [ClearTimeout AbortTimeout, Reject e] w))"

definition poll_resolve :: "jsval \<Rightarrow> waiter \<times> world \<Rightarrow> waiter \<times> world" where
  "poll_resolve v sw =
     (case sw of (s, w) \<Rightarrow>
        (settle (Inr v) (s\<lparr>abortTimeout := clearTimeout (abortTimeout s)\<rparr>),
         emits [ClearTimeout AbortTimeout, Resolve v] w))"

text \<open>
  The \<open>try\<close> block of \<open>pollStatus\<close> once \<open>nodeFetch\<close> has settled with \<open>r\<close>: what
  \<open>fetchJson\<close> and \<open>successFunc\<close> log, and the value of \<open>success\<close> or the error thrown.
\<close>

definition poll_try :: "(jsval \<Rightarrow> log_entry list \<times> (error + jsval)) \<Rightarrow> error + response
    \<Rightarrow> log_entry list \<times> (error + jsval)" where
  "poll_try successFunc r =
     (case r of
        Inl e \<Rightarrow> ([], Inl e)
      | Inr resp \<Rightarrow>
          (case fetchJson_response ''Getting details failed.'' resp of
             (ls, Inl e) \<Rightarrow> (ls, Inl e)
           | (ls, Inr responseData) \<Rightarrow>
               (case successFunc responseData of (ls2, res) \<Rightarrow> (ls @ ls2, res))))"

text \<open>
  \<open>pollStatus\<close>, run at the time \<open>now w\<close>, with the script of the network that is left.
  It sends the request, waits for the response (the abort timer may fire meanwhile),
  and on a falsy \<open>success\<close> sets the poll timer and waits for it; the next
  \<open>pollStatus\<close> runs unless the abort callback cleared the poll timer in between.
\<close>

fun pollStatus :: "client \<Rightarrow> (jsval \<Rightarrow> log_entry list \<times> (error + jsval)) \<Rightarrow> url \<Rightarrow> nat \<Rightarrow> string
    \<Rightarrow> (nat \<times> (error + response)) list \<Rightarrow> waiter \<times> world \<Rightarrow> waiter \<times> world" where
  "pollStatus c successFunc checkUrl checkInterval context [] sw =
     (case fetch_send c checkUrl ''GET'' NoBody (snd sw) of
        (Some e, w1) \<Rightarrow> poll_catch e (fst sw, w1)
      | (None, w1) \<Rightarrow> wait_forever context (fst sw, w1))"
| "pollStatus c successFunc checkUrl checkInterval context ((d, r) # rest) sw =
     (case fetch_send c checkUrl ''GET'' NoBody (snd sw) of
        (Some e, w1) \<Rightarrow> poll_catch e (fst sw, w1)
      | (None, w1) \<Rightarrow>
          (case wait_until context (now w1 + d) (fst sw, w1) of (s2, w2) \<Rightarrow>
           (case poll_try successFunc r of (ls, res) \<Rightarrow>
            (case logs ls (w2\<lparr>now := now w1 + d, net := rest\<rparr>) of w3 \<Rightarrow>
             (case res of
                Inl e \<Rightarrow> poll_catch e (s2, w3)
              | Inr success \<Rightarrow>
                  if truthy success then poll_resolve success (s2, w3)
                  else
                    (case wait_until context (now w3 + checkInterval)
                            (s2\<lparr>checkTimeout := Due (now w3 + checkInterval)\<rparr>,
                             emit (SetTimeout CheckTimeout checkInterval) w3) of
                       (s4, w4) \<Rightarrow>
                         if checkTimeout s4 = Cleared then (s4, w4)
                         else pollStatus c successFunc checkUrl checkInterval context rest
                                (s4\<lparr>checkTimeout := Fired\<rparr>,
                                 emit (TimerFires CheckTimeout)
                                   (w4\<lparr>now := now w3 + checkInterval\<rparr>))))))))"

text \<open>
  \<open>waitRetry\<close>: set the abort timer, run \<open>pollStatus\<close> at once. \<open>waitRetry_run\<close> gives
  the final state of the timers and the promise, \<open>waitRetry\<close> how the promise settled.
\<close>

definition waitRetry_run :: "client \<Rightarrow> (jsval \<Rightarrow> log_entry list \<times> (error + jsval)) \<Rightarrow> url
    \<Rightarrow> nat \<Rightarrow> nat \<Rightarrow> string \<Rightarrow> world \<Rightarrow> waiter \<times> world" where
  "waitRetry_run c successFunc checkUrl checkInterval abortInterval context w =
     pollStatus c successFunc checkUrl checkInterval context (net w)
       (\<lparr>abortTimeout = Due (now w + abortInterval), checkTimeout = Unset, promise = None\<rparr>,
        emit (SetTimeout AbortTimeout abortInterval) w)"

definition promise_outcome :: "(error + jsval) option \<Rightarrow> jsval outcome" where
  "promise_outcome p =
     (case p of None \<Rightarrow> Pending | Some (Inl e) \<Rightarrow> Thrown e | Some (Inr v) \<Rightarrow> Returned v)"

definition waitRetry :: "client \<Rightarrow> (jsval \<Rightarrow> log_entry list \<times> (error + jsval)) \<Rightarrow> url
    \<Rightarrow> nat \<Rightarrow> nat \<Rightarrow> string \<Rightarrow> world \<Rightarrow> jsval outcome \<times> world" where
  "waitRetry c successFunc checkUrl checkInterval abortInterval context w =
     (case waitRetry_run c successFunc checkUrl checkInterval abortInterval context w of
        (s, w') \<Rightarrow> (promise_outcome (promise s), w'))"

subsection \<open>The stages of a submission\<close>

text \<open>The predicate \<open>waitForValidation\<close> hands to \<open>waitRetry\<close>.\<close>

definition validation_successFunc :: "jsval \<Rightarrow> log_entry list \<times> (error + jsval)" where
  "validation_successFunc detailResponseData =
     (case getProp detailResponseData ''processed'' of
        Inl e \<Rightarrow> ([], Inl e)
      | Inr processed \<Rightarrow>
          if \<not> truthy processed then ([], Inr JNull)
          else
            (case getProp detailResponseData ''validation'' of
               Inl e \<Rightarrow> ([], Inl e)
             | Inr validation \<Rightarrow>
                 (case getProp detailResponseData ''valid'' of
                    Inl e \<Rightarrow> ([LogInfoData ''Validation results:'' validation], Inl e)
                  | Inr valid \<Rightarrow>
                      if truthy valid
                      then ([LogInfoData ''Validation results:'' validation],
                            getProp detailResponseData ''uuid'')
                      else
                        ([LogInfoData ''Validation results:'' validation,
                          LogInfo ''Validation failed.''],
                         (case getProp detailResponseData ''url'' of
                            Inl e \<Rightarrow> Inl e
                          | Inr u \<Rightarrow>
                              (case to_string u of
                                 Inl e \<Rightarrow> Inl e
                               | Inr us \<Rightarrow>
                                   Inl (Error
                                     (''Validation failed, open the following URL for more information: ''
                                      @ us))))))))"



text \<open>
  \<open>{...metaDataJson, version: {upload: uuid, ...metaDataJson.version}}\<close>. A later
  property of an object literal replaces an earlier one of the same name:
  \<open>AList.merge qs ps\<close> is \<open>{...qs, ...ps}\<close>.
\<close>

definition jsonData :: "jsval \<Rightarrow> jsval \<Rightarrow> error + jsval" where
  "jsonData uuid metaDataJson =
     (case getProp metaDataJson ''version'' of
        Inl e \<Rightarrow> Inl e
      | Inr version \<Rightarrow>
          Inr (JObj (AList.update ''version''
                       (JObj (AList.merge [(''upload'', uuid)] (spread version)))
                       (AList.merge [] (spread metaDataJson)))))"

definition doNewAddonSubmit :: "client \<Rightarrow> jsval \<Rightarrow> jsval \<Rightarrow> world \<Rightarrow> jsval outcome \<times> world" where
  "doNewAddonSubmit c uuid metaDataJson w =
     (case jsonData uuid metaDataJson of
        Inl e \<Rightarrow> (Thrown e, w)
      | Inr j \<Rightarrow>
          fetchJson c (URLRel ''addon/'' (apiUrl c)) ''POST'' (JsonBody j) ''Bad Request'' w)"

definition doNewAddonOrVersionSubmit :: "client \<Rightarrow> string \<Rightarrow> jsval \<Rightarrow> jsval \<Rightarrow> world
    \<Rightarrow> response outcome \<times> world" where
  "doNewAddonOrVersionSubmit c addonId uuid metaDataJson w =
     (case jsonData uuid metaDataJson of
        Inl e \<Rightarrow> (Thrown e, w)
      | Inr j \<Rightarrow>
          fetch c (URLRel (''addon/'' @ addonId @ ''/'') (apiUrl c)) ''PUT'' (JsonBody j) w)"

text \<open>The predicate \<open>waitForApproval\<close> hands to \<open>waitRetry\<close>.\<close>

definition approval_successFunc :: "jsval \<Rightarrow> log_entry list \<times> (error + jsval)" where
  "approval_successFunc detailResponseData =
     (case getProp detailResponseData ''file'' of
        Inl e \<Rightarrow> ([], Inl e)
      | Inr file \<Rightarrow>
          if \<not> truthy file then ([], Inr JNull)
          else
            (case getProp file ''status'' of
               Inl e \<Rightarrow> ([], Inl e)
             | Inr st \<Rightarrow>
                 if st = JStr ''public'' then ([], getProp file ''url'')
                 else ([], Inr JNull)))"

definition waitForApproval :: "client \<Rightarrow> jsval \<Rightarrow> jsval \<Rightarrow> world \<Rightarrow> jsval outcome \<times> world" where
  "waitForApproval c addonId versionId w =
     (case to_string addonId of
        Inl e \<Rightarrow> (Thrown e, log (LogInfo ''Waiting for Approval...'') w)
      | Inr a \<Rightarrow>
          (case to_string versionId of
             Inl e \<Rightarrow> (Thrown e, log (LogInfo ''Waiting for Approval...'') w)
           | Inr v \<Rightarrow>
               waitRetry c approval_successFunc
                 (URLRel (''addon/'' @ a @ ''/versions/'' @ v @ ''/'') (apiUrl c))
                 (approvalCheckInterval c) (approvalCheckTimeout c) ''Approval''
                 (log (LogInfo ''Waiting for Approval...'') w)))"

subsection \<open>Download\<close>

record sign_result =
  id :: jsval
  downloadedFiles :: "string list"

text \<open>
  \<open>saveToFile\<close>: the pipeline fails when the body's stream does, or when the file
  cannot be written.
\<close>

definition saveToFile :: "body \<Rightarrow> string \<Rightarrow> world \<Rightarrow> unit outcome \<times> world" where
  "saveToFile contents destPath w =
     (case contents of
        Body (Some e) \<Rightarrow> (Thrown e, emit (SaveToFile destPath) w)
      | Body None \<Rightarrow>
          (case fs_write w destPath of
             Some e \<Rightarrow> (Thrown e, emit (SaveToFile destPath) w)
           | None \<Rightarrow> (Returned (), emit (SaveToFile destPath) w)))"

text \<open>The \<open>try\<close> block of \<open>downloadSignedFile\<close>.\<close>

definition download_try :: "client \<Rightarrow> url \<Rightarrow> string \<Rightarrow> world \<Rightarrow> unit outcome \<times> world" where
  "download_try c fileUrl dest w =
     bind (fetch c fileUrl ''GET'' NoBody w)
       (\<lambda>r w1. if \<not> ok r
                then (Thrown (Error (''response status was '' @ show_nat (status r))), w1)
                else (case body r of
                        None \<Rightarrow>
                          (Thrown (Error (''response status was '' @ show_nat (status r))), w1)
                      | Some b \<Rightarrow> saveToFile b dest w1))"

definition downloadSignedFile :: "client \<Rightarrow> url \<Rightarrow> jsval \<Rightarrow> world
    \<Rightarrow> sign_result outcome \<times> world" where
  "downloadSignedFile c fileUrl addonId w =
     (let filename = last (split_on CHR ''/'' (url_pathname w fileUrl));
          dest = downloadDir c @ ''/'' @ filename
      in case download_try c fileUrl dest w of
           (Thrown e, w1) \<Rightarrow>
             (Thrown (Error (''Downloading '' @ filename @ '' failed'')),
              log (LogInfo (''Download of signed xpi failed: '' @ error_to_string e @ ''.'')) w1)
         | (Pending, w1) \<Rightarrow> (Pending, w1)
         | (Returned _, w1) \<Rightarrow>
             (Returned \<lparr>id = addonId, downloadedFiles = [filename]\<rparr>, w1))"

subsection \<open>The two workflows and signAddon\<close>


text \<open>\<open>new URL(v)\<close> for a value: its string, parsed; a TypeError when it does not parse.\<close>

definition new_URL :: "jsval \<Rightarrow> world \<Rightarrow> url outcome \<times> world" where
  "new_URL v w =
     (case to_string v of
        Inl e \<Rightarrow> (Thrown e, w)
      | Inr s \<Rightarrow> if url_valid w s then (Returned (URL s), w)
                 else (Thrown (TypeError ''Invalid URL''), w))"


text \<open>
  \<open>postNewAddon\<close> after the upload stage, from the response of \<open>doNewAddonSubmit\<close>
  on: the destructuring, the saving of the id, the approval stage, the download.
\<close>

definition approve_and_download :: "client \<Rightarrow> jsval \<Rightarrow> jsval \<Rightarrow> world
    \<Rightarrow> sign_result outcome \<times> world" where
  "approve_and_download c addonId newVersionId w =
     bind (waitForApproval c addonId newVersionId w)
       (\<lambda>u w1. bind (new_URL u w1) (\<lambda>fileUrl w2. downloadSignedFile c fileUrl addonId w2))"



text \<open>
  The parameters of \<open>signAddon\<close>; \<open>None\<close> is a parameter left \<open>undefined\<close>.
  \<open>signJWT\<close> is what the \<open>ApiAuthClass\<close> instance's signing of a token gives.
\<close>

record signAddonParams =
  signJWT :: "error + string"
  amoBaseUrl :: string
  timeout :: "nat option"
  addon_id :: "string option"
  xpiPath :: string
  sa_downloadDir :: "string option"
  channel :: string
  savedIdPath :: string
  sa_metaDataJson :: jsval
  sa_userAgentString :: string

text \<open>\<open>JwtApiAuth.getAuthHeader\<close>.\<close>

definition getAuthHeader :: "error + string \<Rightarrow> error + string" where
  "getAuthHeader jwt = (case jwt of Inl e \<Rightarrow> Inl e | Inr authToken \<Rightarrow> Inr (''JWT '' @ authToken))"

text \<open>The client \<open>signAddon\<close> constructs.\<close>

definition signAddon_client :: "world \<Rightarrow> signAddonParams \<Rightarrow> client" where
  "signAddon_client w p =
     Client w
       \<lparr> p_apiAuth = getAuthHeader (signJWT p),
         p_baseUrl = URL (amoBaseUrl p),
         p_validationCheckInterval = None,
         p_validationCheckTimeout = timeout p,
         p_approvalCheckInterval = None,
         p_approvalCheckTimeout = timeout p,
         p_downloadDir = sa_downloadDir p,
         p_userAgentString = sa_userAgentString p \<rparr>"


section \<open>Reading a trace\<close>

text \<open>The requests of a trace: time, method, URL and body of every call of \<open>nodeFetch\<close>.\<close>

fun requests :: "(nat \<times> event) list \<Rightarrow> (nat \<times> string \<times> url \<times> reqbody) list" where
  "requests [] = []"
| "requests ((t, Fetch u m b h) # es) = (t, m, u, b) # requests es"
| "requests (e # es) = requests es"




text \<open>
  The trace only grows, and the platform is never changed: \<open>evolves w w'\<close> says
  so of a world \<open>w\<close> and a later one \<open>w'\<close>.
\<close>

definition evolves :: "world \<Rightarrow> world \<Rightarrow> bool" where
  "evolves w w' =
     ((\<exists>es. events w' = events w @ es) \<and> url_valid w' = url_valid w
      \<and> url_pathname w' = url_pathname w \<and> url_href w' = url_href w
      \<and> stat_isFile w' = stat_isFile w \<and> fs_write w' = fs_write w \<and> cwd w' = cwd w)"


text \<open>The last segment of a path: what follows its last slash, all of it when it has none.\<close>

definition last_segment :: "string \<Rightarrow> string" where
  "last_segment s = rev (takeWhile (\<lambda>ch. ch \<noteq> CHR ''/'') (rev s))"

text \<open>The value of a property, \<open>undefined\<close> where reading it throws.\<close>

definition field :: "jsval \<Rightarrow> string \<Rightarrow> jsval" where
  "field v k = (case getProp v k of Inl e \<Rightarrow> JUndefined | Inr x \<Rightarrow> x)"

section \<open>Example inputs\<close>

text \<open>
  A platform for the examples: every string parses as a URL, a relative URL is its base
  with the reference appended, every path is a file and every write succeeds.
\<close>

fun href_of :: "url \<Rightarrow> string" where
  "href_of (URL s) = s"
| "href_of (URLRel r b) = href_of b @ r"
| "href_of (URLSlash u) = href_of u @ ''/''"

definition ex_world :: "(nat \<times> (error + response)) list \<Rightarrow> world" where
  "ex_world script =
     \<lparr> now = 0, net = script, events = [], url_valid = (\<lambda>s. True), url_pathname = href_of,
       url_href = href_of, stat_isFile = (\<lambda>p. Inr True), fs_write = (\<lambda>p. None),
       cwd = ''/tmp'' \<rparr>"

definition ex_client :: client where
  "ex_client =
     \<lparr> apiAuth = Inr ''JWT t'', apiUrl = URL ''/api/addons/'',
       validationCheckInterval = 10, validationCheckTimeout = 100,
       approvalCheckInterval = 10, approvalCheckTimeout = 100,
       downloadDir = ''/d'', userAgentString = ''ua'' \<rparr>"

definition ok_response :: "jsval \<Rightarrow> response" where
  "ok_response j = \<lparr> status = 200, statusText = ''OK'', ok = True, json = Inr j, body = None \<rparr>"

text \<open>A 404 with a JSON body and no status text; a 200 whose body is a web page.\<close>

definition not_found :: response where
  "not_found =
     \<lparr> status = 404, statusText = [], ok = False,
       json = Inr (JObj [(''detail'', JStr ''Not found.'')]), body = None \<rparr>"

definition web_page :: response where
  "web_page =
     \<lparr> status = 200, statusText = ''OK'', ok = True,
       json = Inl (PlatformError ''SyntaxError'' ''Unexpected token < in JSON at position 0''),
       body = None \<rparr>"

text \<open>
  Responses of the validation endpoint: not processed yet; processed and valid with an
  empty uuid; processed and valid; processed and not valid.
\<close>

definition in_progress :: jsval where
  "in_progress = JObj [(''processed'', JBool False)]"

definition valid_no_uuid :: jsval where
  "valid_no_uuid =
     JObj [(''processed'', JBool True), (''valid'', JBool True), (''uuid'', JStr [])]"

definition valid_u1 :: jsval where
  "valid_u1 =
     JObj [(''processed'', JBool True), (''valid'', JBool True), (''uuid'', JStr ''u1'')]"

definition invalid_u1 :: jsval where
  "invalid_u1 =
     JObj [(''processed'', JBool True), (''valid'', JBool False),
           (''url'', JStr ''/validation/u1'')]"

definition check_url :: url where
  "check_url = URLRel ''upload/u1/'' (apiUrl ex_client)"



text \<open>Metadata with a version of its own; a signed file, and one whose stream breaks.\<close>

definition ex_meta :: "(string \<times> jsval) list" where
  "ex_meta = [(''name'', JStr ''x''), (''version'', JObj [(''license'', JStr ''MIT'')])]"

definition signed_file :: response where
  "signed_file =
     \<lparr> status = 200, statusText = ''OK'', ok = True,
       json = Inl (PlatformError ''SyntaxError'' ''Unexpected token P in JSON at position 0''),
       body = Some (Body None) \<rparr>"

definition broken_file :: response where
  "broken_file = signed_file\<lparr>body := Some (Body (Some (PlatformError ''Error'' ''aborted'')))\<rparr>"









section \<open>Basic facts\<close>

lemma bind_simps [simp]:
  "bind (Returned a, w) k = k a w"
  "bind (Thrown e, w) k = (Thrown e, w)"
  "bind (Pending, w) k = (Pending, w)"
  by (simp_all add: bind_def)

lemma of_sum_simps [simp]:
  "of_sum (Inl e) w = (Thrown e, w)"
  "of_sum (Inr a) w = (Returned a, w)"
  by (simp_all add: of_sum_def)

lemma emit_fields [simp]:
  "now (emit e w) = now w" "net (emit e w) = net w"
  "events (emit e w) = events w @ [(now w, e)]"
  "url_valid (emit e w) = url_valid w" "url_pathname (emit e w) = url_pathname w"
  "url_href (emit e w) = url_href w" "stat_isFile (emit e w) = stat_isFile w"
  "fs_write (emit e w) = fs_write w" "cwd (emit e w) = cwd w"
  by (simp_all add: emit_def)

lemma log_fields [simp]:
  "now (log l w) = now w" "net (log l w) = net w"
  "events (log l w) = events w @ [(now w, Log l)]"
  "url_valid (log l w) = url_valid w" "url_pathname (log l w) = url_pathname w"
  "url_href (log l w) = url_href w" "stat_isFile (log l w) = stat_isFile w"
  "fs_write (log l w) = fs_write w" "cwd (log l w) = cwd w"
  by (simp_all add: log_def)

lemma emits_fields [simp]:
  "now (emits es w) = now w" "net (emits es w) = net w"
  "events (emits es w) = events w @ map (\<lambda>e. (now w, e)) es"
  "url_valid (emits es w) = url_valid w" "url_pathname (emits es w) = url_pathname w"
  "url_href (emits es w) = url_href w" "stat_isFile (emits es w) = stat_isFile w"
  "fs_write (emits es w) = fs_write w" "cwd (emits es w) = cwd w"
  by (induction es arbitrary: w; simp)+

lemma logs_fields [simp]:
  "now (logs ls w) = now w" "net (logs ls w) = net w"
  "events (logs ls w) = events w @ map (\<lambda>l. (now w, Log l)) ls"
  "url_valid (logs ls w) = url_valid w" "url_pathname (logs ls w) = url_pathname w"
  "url_href (logs ls w) = url_href w" "stat_isFile (logs ls w) = stat_isFile w"
  "fs_write (logs ls w) = fs_write w" "cwd (logs ls w) = cwd w"
  by (simp_all add: logs_def comp_def)

lemma requests_append [simp]: "requests (xs @ ys) = requests xs @ requests ys"
  by (induction xs rule: requests.induct) simp_all

lemma requests_logs [simp]: "requests (map (\<lambda>l. (t, Log l)) ls) = []"
  by (induction ls) simp_all

lemma split_on_nonempty [simp]: "split_on c s \<noteq> []"
  by (induction s) (auto split: list.splits)

lemma split_on_no_sep: "c \<notin> set s \<Longrightarrow> split_on c s = [s]"
  by (induction s) auto

lemma split_on_snoc:
  "c \<notin> set name \<Longrightarrow> \<exists>pre. pre \<noteq> [] \<and> split_on c (dir @ c # name) = pre @ [name]"
proof (induction dir)
  case Nil
  then show ?case by (simp add: split_on_no_sep)
next
  case (Cons a dir)
  then obtain p ps where "split_on c (dir @ c # name) = (p # ps) @ [name]"
    by (metis neq_Nil_conv)
  then show ?case
    by (cases "a = c") (auto intro: exI [of _ "[] # p # ps"] exI [of _ "(a # p) # ps"])
qed

lemma last_split_on:
  "c \<notin> set name \<Longrightarrow> last (split_on c (dir @ c # name)) = name"
  using split_on_snoc [of c name dir] by auto

lemma last_split_on_segment: "last (split_on CHR ''/'' s) = last_segment s"
proof -
  let ?P = "\<lambda>ch. ch \<noteq> CHR ''/''"
  let ?name = "rev (takeWhile ?P (rev s))"
  let ?dir = "rev (dropWhile ?P (rev s))"
  have s: "s = ?dir @ ?name"
    by (metis rev_append rev_rev_ident takeWhile_dropWhile_id)
  have name: "CHR ''/'' \<notin> set ?name"
    by (auto dest: set_takeWhileD)
  show ?thesis
  proof (cases "dropWhile ?P (rev s)")
    case Nil
    then have "?dir = []" by simp
    with s have "s = ?name" by (metis append_Nil)
    then have "split_on CHR ''/'' s = [?name]"
      using split_on_no_sep [OF name] by simp
    then show ?thesis by (simp add: last_segment_def)
  next
    case (Cons x xs)
    then have "x = CHR ''/''"
      using hd_dropWhile [of ?P "rev s"] by auto
    then have "?dir = rev xs @ [CHR ''/'']"
      using Cons by simp
    with s have "s = rev xs @ CHR ''/'' # ?name"
      by (metis append.assoc append_Cons append_Nil)
    then have "last (split_on CHR ''/'' s) = ?name"
      using last_split_on [OF name, of "rev xs"] by simp
    then show ?thesis by (simp add: last_segment_def)
  qed
qed

lemma field_JObj: "field (JObj kvs) k = (case map_of kvs k of None \<Rightarrow> JUndefined | Some v \<Rightarrow> v)"
  by (simp add: field_def)

lemma fetch_send_ok:
  "apiAuth c = Inr auth \<Longrightarrow>
   fetch_send c u m b w =
     (None, emit (Fetch u m b (fetch_headers c auth b))
              (log (LogInfo (''Fetching URL: '' @ url_href w u)) w))"
  by (simp add: fetch_send_def)

lemma ex_auth: "apiAuth ex_client = Inr ''JWT t''"
  by (simp add: ex_client_def)

lemma ex_fetch:
  "fetch ex_client u m b (ex_world [(d, Inr r)]) =
     (Returned r,
      emit (Fetch u m b (fetch_headers ex_client ''JWT t'' b))
        (log (LogInfo (''Fetching URL: '' @ href_of u)) (ex_world [(d, Inr r)]))
      \<lparr>now := d, net := []\<rparr>)"
  by (simp add: fetch_def fetch_send_def fetch_receive_def ex_client_def ex_world_def emit_def
      log_def)

lemma fetch_returned:
  assumes "fetch c u m b w = (Returned r, w1)"
  shows "fs_write w1 = fs_write w" and "url_pathname w1 = url_pathname w"
    and "url_valid w1 = url_valid w" and "stat_isFile w1 = stat_isFile w"
  using assms
  by (auto simp: fetch_def fetch_send_def fetch_receive_def of_sum_def Let_def
       split: sum.splits list.splits prod.splits)

lemma requests_fetch:
  "apiAuth c = Inr auth \<Longrightarrow>
   requests (events (snd (fetch c u m b w))) = requests (events w) @ [(now w, m, u, b)]"
  by (simp add: fetch_def fetch_send_ok fetch_receive_def of_sum_def
        split: list.splits sum.splits)

lemma requests_fetchJson:
  "apiAuth c = Inr auth \<Longrightarrow>
   requests (events (snd (fetchJson c u m b msg w))) = requests (events w) @ [(now w, m, u, b)]"
  by (auto simp: fetchJson_def fetch_def fetch_send_ok fetch_receive_def of_sum_def
        split: list.splits sum.splits prod.splits)

section \<open>fetchJson\<close>

text \<open>
  C2, as amended. When \<open>fetch\<close> gives a response whose body parses as JSON, \<open>fetchJson\<close>
  throws exactly when the status is below 200, or at least 500, or in [200,500) with
  the response not ok; the error is \<open>errorMsg\<close>, a colon, the status text (the status
  code when the status text is empty) and a full stop; otherwise it returns the parsed
  body. When the body does not parse, a status in [200,500) makes \<open>fetchJson\<close> throw
  the parser's error, whatever \<open>ok\<close> says, since the body is parsed before \<open>ok\<close> is read.
\<close>

theorem fetchJson_raises_by_status:
  assumes "fetch c u m b w = (Returned r, w1)"
  shows "(case json r of
            Inr data \<Rightarrow>
              fst (fetchJson c u m b errorMsg w) =
                (if status r < 200 \<or> 500 \<le> status r
                    \<or> (200 \<le> status r \<and> status r < 500 \<and> \<not> ok r)
                 then Thrown (Error (errorMsg @ '': '' @
                        (if statusText r = [] then show_nat (status r) else statusText r)
                        @ ''.''))
                 else Returned data)
          | Inl e \<Rightarrow>
              fst (fetchJson c u m b errorMsg w) =
                (if status r < 200 \<or> 500 \<le> status r
                 then Thrown (Error (errorMsg @ '': '' @
                        (if statusText r = [] then show_nat (status r) else statusText r)
                        @ ''.''))
                 else Thrown e))"
  using assms
  by (auto simp: fetchJson_def fetchJson_response_def status_error_def split: sum.splits)

theorem fetchJson_raises_by_status_witness:
  "fst (fetchJson ex_client (URLRel ''addon/'' (apiUrl ex_client)) ''GET'' NoBody
          ''Bad Request'' (ex_world [(5, Inr not_found)]))
     = Thrown (Error ''Bad Request: 404.'')"
  using fetchJson_raises_by_status [where r = not_found and errorMsg = "''Bad Request''",
      OF ex_fetch]
  by (simp add: not_found_def show_nat.simps)

text \<open>
  C2 as stated fails: a response with status 200 that is ok, and whose body is not
  JSON, makes \<open>fetchJson\<close> throw, and the error does not hold \<open>errorMsg\<close>.
\<close>

theorem fetchJson_unparsed_body_counterexample:
  "status web_page = 200 \<and> ok web_page
   \<and> fst (fetchJson ex_client (URLRel ''addon/'' (apiUrl ex_client)) ''GET'' NoBody
            ''Bad Request'' (ex_world [(5, Inr web_page)]))
       = Thrown (PlatformError ''SyntaxError'' ''Unexpected token < in JSON at position 0'')"
  by (simp add: ex_fetch fetchJson_def fetchJson_response_def web_page_def)

section \<open>waitRetry\<close>










lemma evolves_refl [simp]: "evolves w w"
  by (simp add: evolves_def)

lemma evolves_trans: "evolves w w1 \<Longrightarrow> evolves w1 w2 \<Longrightarrow> evolves w w2"
  by (auto simp: evolves_def)

lemma evolves_steps [simp]:
  "evolves w w' \<Longrightarrow> evolves w (emit e w')"
  "evolves w w' \<Longrightarrow> evolves w (log l w')"
  "evolves w w' \<Longrightarrow> evolves w (emits es w')"
  "evolves w w' \<Longrightarrow> evolves w (logs ls w')"
  "evolves w w' \<Longrightarrow> evolves w (w'\<lparr>now := t\<rparr>)"
  "evolves w w' \<Longrightarrow> evolves w (w'\<lparr>net := n\<rparr>)"
  by (auto simp: evolves_def)

lemma evolves_fetch_send: "evolves w w' \<Longrightarrow> evolves w (snd (fetch_send c u m b w'))"
  by (simp add: fetch_send_def Let_def split: sum.splits)

lemma evolves_wait_until: "evolves w (snd sw) \<Longrightarrow> evolves w (snd (wait_until ctx t sw))"
  by (cases sw) (simp add: wait_until_def abort_fires_def split: timer.splits)

lemma evolves_wait_forever: "evolves w (snd sw) \<Longrightarrow> evolves w (snd (wait_forever ctx sw))"
  by (cases sw) (simp add: wait_forever_def abort_fires_def split: timer.splits)

lemma evolves_poll_catch: "evolves w (snd sw) \<Longrightarrow> evolves w (snd (poll_catch e sw))"
  by (cases sw) (simp add: poll_catch_def)

lemma evolves_poll_resolve: "evolves w (snd sw) \<Longrightarrow> evolves w (snd (poll_resolve v sw))"
  by (cases sw) (simp add: poll_resolve_def)

lemma pollStatus_Nil_evolves:
  assumes "fetch_send c u ''GET'' NoBody (snd sw) = (oe, w1)" and "evolves b w1"
  shows "evolves b (snd (pollStatus c f u iv ctx [] sw))"
  using assms
  by (cases oe) (simp_all add: evolves_poll_catch evolves_wait_forever)

lemma pollStatus_Cons_evolves:
  assumes rec: "\<And>sw'. evolves b (snd sw') \<Longrightarrow> evolves b (snd (pollStatus c f u iv ctx rest sw'))"
    and fs: "fetch_send c u ''GET'' NoBody (snd sw) = (oe, w1)" and w1: "evolves b w1"
  shows "evolves b (snd (pollStatus c f u iv ctx ((d, r) # rest) sw))"
proof (cases oe)
  case (Some e)
  then show ?thesis using w1 fs by (simp add: evolves_poll_catch)
next
  case None
  obtain s2 w2 where wu: "wait_until ctx (now w1 + d) (fst sw, w1) = (s2, w2)"
    by (cases "wait_until ctx (now w1 + d) (fst sw, w1)")
  have w2: "evolves b w2"
    using evolves_wait_until [of b "(fst sw, w1)" ctx "now w1 + d"] w1 wu by simp
  obtain ls res where pt: "poll_try f r = (ls, res)" by (cases "poll_try f r")
  let ?w3 = "logs ls (w2\<lparr>now := now w1 + d, net := rest\<rparr>)"
  have w3: "evolves b ?w3" using w2 by simp
  show ?thesis
  proof (cases res)
    case (Inl e)
    then show ?thesis
      using fs None wu pt w3 by (simp add: evolves_poll_catch)
  next
    case (Inr v)
    show ?thesis
    proof (cases "truthy v")
      case True
      then show ?thesis
        using fs None wu pt w3 Inr by (simp add: evolves_poll_resolve)
    next
      case False
      obtain s4 w4 where wu2: "wait_until ctx (now w1 + d + iv)
            (s2\<lparr>checkTimeout := Due (now w1 + d + iv)\<rparr>, emit (SetTimeout CheckTimeout iv) ?w3)
            = (s4, w4)"
        by (cases "wait_until ctx (now w1 + d + iv)
            (s2\<lparr>checkTimeout := Due (now w1 + d + iv)\<rparr>, emit (SetTimeout CheckTimeout iv) ?w3)")
      have w4: "evolves b w4"
        using evolves_wait_until [of b "(s2\<lparr>checkTimeout := Due (now w1 + d + iv)\<rparr>,
          emit (SetTimeout CheckTimeout iv) ?w3)" ctx "now w1 + d + iv"] w3 wu2 by simp
      have "evolves b (snd (pollStatus c f u iv ctx rest
               (s4\<lparr>checkTimeout := Fired\<rparr>,
                emit (TimerFires CheckTimeout) (w4\<lparr>now := now w1 + d + iv\<rparr>))))"
        by (rule rec) (simp add: w4)
      then show ?thesis
        using fs None wu pt Inr False wu2 w4 by simp
    qed
  qed
qed

lemma evolves_pollStatus:
  "evolves w (snd sw) \<Longrightarrow> evolves w (snd (pollStatus c f u iv ctx script sw))"
proof (induction script arbitrary: sw)
  case Nil
  obtain oe w1 where fs: "fetch_send c u ''GET'' NoBody (snd sw) = (oe, w1)"
    by (cases "fetch_send c u ''GET'' NoBody (snd sw)")
  have "evolves w w1"
    using evolves_fetch_send [OF Nil.prems, of c u "''GET''" NoBody] fs by simp
  then show ?case by (rule pollStatus_Nil_evolves [OF fs])
next
  case (Cons x script)
  obtain d r where x: "x = (d, r)" by (cases x)
  obtain oe w1 where fs: "fetch_send c u ''GET'' NoBody (snd sw) = (oe, w1)"
    by (cases "fetch_send c u ''GET'' NoBody (snd sw)")
  have w1: "evolves w w1"
    using evolves_fetch_send [OF Cons.prems, of c u "''GET''" NoBody] fs by simp
  show ?case
    unfolding x
  proof (rule pollStatus_Cons_evolves [OF _ fs])
    show "evolves w (snd (pollStatus c f u iv ctx script sw'))" if "evolves w (snd sw')" for sw'
      using that by (rule Cons.IH)
    show "evolves w w1" by (rule w1)
  qed
qed



lemma evolves_waitRetry:
  "evolves w w' \<Longrightarrow> evolves w (snd (waitRetry c f u iv ai ctx w'))"
  using evolves_pollStatus [of w "(\<lparr>abortTimeout = Due (now w' + ai), checkTimeout = Unset,
      promise = None\<rparr>, emit (SetTimeout AbortTimeout ai) w')" c f u iv ctx "net w'"]
  by (simp add: waitRetry_def waitRetry_run_def split_beta)

lemma ex_poll_try:
  "poll_try validation_successFunc (Inr (ok_response in_progress)) = ([], Inr JNull)"
  "poll_try validation_successFunc (Inr (ok_response valid_no_uuid)) =
     ([LogInfoData ''Validation results:'' JUndefined], Inr (JStr []))"
  "poll_try validation_successFunc (Inr (ok_response valid_u1)) =
     ([LogInfoData ''Validation results:'' JUndefined], Inr (JStr ''u1''))"
  "poll_try validation_successFunc (Inr (ok_response invalid_u1)) =
     ([LogInfoData ''Validation results:'' JUndefined, LogInfo ''Validation failed.''],
      Inl (Error (''Validation failed, open the following URL for more information: ''
                  @ ''/validation/u1'')))"
  by (simp_all add: poll_try_def fetchJson_response_def ok_response_def in_progress_def
        valid_no_uuid_def valid_u1_def invalid_u1_def validation_successFunc_def)

lemmas ex_run =
  waitRetry_def waitRetry_run_def ex_world_def ex_poll_try fetch_send_def ex_auth
  wait_until_def wait_forever_def abort_fires_def poll_catch_def poll_resolve_def settle_def
  clearTimeout_def promise_outcome_def

text \<open>
  C1. The claim does not hold of the code. The abort timer is due at 100 with the first
  request still in flight: its callback clears a poll timer that is not set and rejects
  with the timeout error. The response arrives at 150 with nothing processed, so
  \<open>pollStatus\<close> sets the poll timer, which no one clears any more, and a new request
  is sent at 160, after the rejection.
\<close>

theorem waitRetry_polls_after_timeout:
  "fst (waitRetry ex_client validation_successFunc check_url 10 100 ''Validation''
          (ex_world [(150, Inr (ok_response in_progress))]))
     = Thrown (Error ''Validation: timeout.'')
   \<and> events (snd (waitRetry ex_client validation_successFunc check_url 10 100 ''Validation''
                 (ex_world [(150, Inr (ok_response in_progress))])))
     = [(0, SetTimeout AbortTimeout 100),
        (0, Log (LogInfo (''Fetching URL: '' @ href_of check_url))),
        (0, Fetch check_url ''GET'' NoBody (fetch_headers ex_client ''JWT t'' NoBody)),
        (100, TimerFires AbortTimeout),
        (100, ClearTimeout CheckTimeout),
        (100, Reject (Error ''Validation: timeout.'')),
        (150, SetTimeout CheckTimeout 10),
        (160, TimerFires CheckTimeout),
        (160, Log (LogInfo (''Fetching URL: '' @ href_of check_url))),
        (160, Fetch check_url ''GET'' NoBody (fetch_headers ex_client ''JWT t'' NoBody))]"
  by (simp add: ex_run)












section \<open>The validation predicate\<close>

text \<open>
  C5, as amended. For every response other than \<open>null\<close> (\<open>undefined\<close> is no JSON
  value), the validation predicate returns \<open>null\<close> when \<open>processed\<close> is falsy, returns
  the response's \<open>uuid\<close> when \<open>processed\<close> and \<open>valid\<close> are truthy, and throws when
  \<open>processed\<close> is truthy and \<open>valid\<close> falsy: an Error whose message ends in the
  string of the \<open>url\<close> field, or the TypeError of that conversion when \<open>url\<close> is an
  object with a \<open>toString\<close> property. It throws in no other case.
\<close>

theorem validation_successFunc_cases:
  assumes "d \<noteq> JNull" and "d \<noteq> JUndefined"
  shows "snd (validation_successFunc d) =
     (if \<not> truthy (field d ''processed'') then Inr JNull
      else if truthy (field d ''valid'') then Inr (field d ''uuid'')
      else (case to_string (field d ''url'') of
              Inr s \<Rightarrow>
                Inl (Error (''Validation failed, open the following URL for more information: ''
                            @ s))
            | Inl e \<Rightarrow> Inl e))"
  using assms
  by (cases d) (simp_all add: validation_successFunc_def field_def split: sum.splits)

theorem validation_successFunc_cases_witness:
  "snd (validation_successFunc invalid_u1) =
     Inl (Error ''Validation failed, open the following URL for more information: /validation/u1'')"
  using validation_successFunc_cases [of invalid_u1]
  by (simp add: invalid_u1_def field_def)

text \<open>
  C5 as stated fails: for the response \<open>null\<close> the predicate throws, reading
  \<open>processed\<close>, though the response is not processed and not valid.
\<close>

theorem validation_successFunc_null_counterexample:
  "snd (validation_successFunc JNull) =
     Inl (TypeError ''Cannot read properties of null (reading processed)'')"
  by (simp add: validation_successFunc_def)

section \<open>The submitted metadata\<close>

text \<open>
  C8, as amended. For every metadata object and every uuid, the create submission and
  the update submission send the same JSON body: the metadata with its \<open>version\<close>
  replaced by \<open>{upload: uuid, ...metadata.version}\<close>. Every other field is the
  metadata's; in \<open>version\<close>, the fields of the metadata's own \<open>version\<close> come last and
  win, so \<open>version.upload\<close> is the uuid exactly when the metadata's \<open>version\<close> has no
  \<open>upload\<close> of its own.
\<close>

theorem submit_body_is_merged_metadata:
  assumes "apiAuth c = Inr auth"
  shows "\<exists>j. jsonData uuid (JObj meta) = Inr j
     \<and> requests (events (snd (doNewAddonSubmit c uuid (JObj meta) w)))
         = requests (events w) @ [(now w, ''POST'', URLRel ''addon/'' (apiUrl c), JsonBody j)]
     \<and> requests (events (snd (doNewAddonOrVersionSubmit c addonId uuid (JObj meta) w)))
         = requests (events w)
           @ [(now w, ''PUT'', URLRel (''addon/'' @ addonId @ ''/'') (apiUrl c), JsonBody j)]
     \<and> (\<forall>k. k \<noteq> ''version'' \<longrightarrow> field j k = field (JObj meta) k)
     \<and> (\<forall>k. field (field j ''version'') k =
              (case map_of (spread (field (JObj meta) ''version'')) k of
                 Some x \<Rightarrow> x
               | None \<Rightarrow> if k = ''upload'' then uuid else JUndefined))"
  using assms
  by (simp add: jsonData_def doNewAddonSubmit_def doNewAddonOrVersionSubmit_def
        requests_fetch requests_fetchJson field_JObj update_conv' merge_conv' map_add_def
        split: option.splits)

theorem submit_body_is_merged_metadata_witness:
  "\<exists>j. jsonData (JStr ''u1'') (JObj ex_meta) = Inr j
     \<and> requests (events (snd (doNewAddonSubmit ex_client (JStr ''u1'') (JObj ex_meta)
          (ex_world []))))
         = [(0, ''POST'', URLRel ''addon/'' (apiUrl ex_client), JsonBody j)]
     \<and> field j ''name'' = JStr ''x''
     \<and> field (field j ''version'') ''upload'' = JStr ''u1''
     \<and> field (field j ''version'') ''license'' = JStr ''MIT''"
proof -
  from submit_body_is_merged_metadata [OF ex_auth, of "JStr ''u1''" ex_meta "ex_world []"]
  obtain j where j: "jsonData (JStr ''u1'') (JObj ex_meta) = Inr j"
    "requests (events (snd (doNewAddonSubmit ex_client (JStr ''u1'') (JObj ex_meta)
       (ex_world []))))
     = requests (events (ex_world []))
       @ [(now (ex_world []), ''POST'', URLRel ''addon/'' (apiUrl ex_client), JsonBody j)]"
    "\<forall>k. k \<noteq> ''version'' \<longrightarrow> field j k = field (JObj ex_meta) k"
    "\<forall>k. field (field j ''version'') k =
          (case map_of (spread (field (JObj ex_meta) ''version'')) k of
             Some x \<Rightarrow> x
           | None \<Rightarrow> if k = ''upload'' then JStr ''u1'' else JUndefined)"
    by blast
  have "field j ''name'' = JStr ''x''"
    using j(3) by (simp add: field_JObj ex_meta_def)
  moreover have "field (field j ''version'') ''upload'' = JStr ''u1''"
    using j(4) by (simp add: field_JObj ex_meta_def)
  moreover have "field (field j ''version'') ''license'' = JStr ''MIT''"
    using j(4) by (simp add: field_JObj ex_meta_def)
  ultimately show ?thesis
    using j(1,2) by (simp add: ex_world_def)
qed

text \<open>
  C8 as stated fails: metadata whose \<open>version\<close> has an \<open>upload\<close> of its own is sent
  with that value, not with the validated uuid.
\<close>

theorem submit_body_upload_counterexample:
  "requests (events (snd (doNewAddonSubmit ex_client (JStr ''u1'')
      (JObj [(''version'', JObj [(''upload'', JStr ''mine'')])]) (ex_world []))))
     = [(0, ''POST'', URLRel ''addon/'' (apiUrl ex_client),
         JsonBody (JObj [(''version'', JObj [(''upload'', JStr ''mine'')])]))]"
  by (simp add: doNewAddonSubmit_def jsonData_def requests_fetchJson [OF ex_auth] ex_world_def
        AList.merge_def)

section \<open>Download\<close>

text \<open>
  C9. The file name is the last segment of the pathname of the signed URL. When the
  request gives a response that is not ok or has no body, \<open>downloadSignedFile\<close> throws
  \<open>Downloading name failed\<close>, after logging the error (\<open>response status was\<close> and
  the status). Otherwise the body is piped to \<open>downloadDir/name\<close>: when the stream or
  the write fails, that error is logged and \<open>Downloading name failed\<close> is thrown,
  with nothing of the error in it; when it succeeds the result is
  \<open>{id: addonId, downloadedFiles: [name]}\<close>.
\<close>

theorem downloadSignedFile_outcomes:
  assumes "name = last_segment (url_pathname w fileUrl)"
    and "fetch c fileUrl ''GET'' NoBody w = (Returned r, w1)"
  shows "downloadSignedFile c fileUrl addonId w =
     (case (ok r, body r) of
        (True, Some (Body stream_error)) \<Rightarrow>
          (case (case stream_error of
                   Some e \<Rightarrow> Some e
                 | None \<Rightarrow> fs_write w (downloadDir c @ ''/'' @ name)) of
             None \<Rightarrow>
               (Returned \<lparr>id = addonId, downloadedFiles = [name]\<rparr>,
                emit (SaveToFile (downloadDir c @ ''/'' @ name)) w1)
           | Some e \<Rightarrow>
               (Thrown (Error (''Downloading '' @ name @ '' failed'')),
                log (LogInfo (''Download of signed xpi failed: '' @ error_to_string e @ ''.''))
                  (emit (SaveToFile (downloadDir c @ ''/'' @ name)) w1)))
      | _ \<Rightarrow>
          (Thrown (Error (''Downloading '' @ name @ '' failed'')),
           log (LogInfo (''Download of signed xpi failed: ''
                  @ error_to_string (Error (''response status was '' @ show_nat (status r)))
                  @ ''.'')) w1))"
  using assms(2) fetch_returned(1) [OF assms(2)]
  by (auto simp: downloadSignedFile_def download_try_def saveToFile_def assms(1)
        last_split_on_segment Let_def split: option.splits body.splits)

theorem downloadSignedFile_outcomes_witness:
  "downloadSignedFile ex_client (URL ''/files/foo.xpi'') (JStr ''g1'')
       (ex_world [(5, Inr signed_file)])
     = (Returned \<lparr>id = JStr ''g1'', downloadedFiles = [''foo.xpi'']\<rparr>,
        emit (SaveToFile ''/d/foo.xpi'')
          (snd (fetch ex_client (URL ''/files/foo.xpi'') ''GET'' NoBody
                  (ex_world [(5, Inr signed_file)]))))
   \<and> downloadSignedFile ex_client (URL ''/files/foo.xpi'') (JStr ''g1'')
       (ex_world [(5, Inr broken_file)])
     = (Thrown (Error ''Downloading foo.xpi failed''),
        log (LogInfo ''Download of signed xpi failed: Error: aborted.'')
          (emit (SaveToFile ''/d/foo.xpi'')
             (snd (fetch ex_client (URL ''/files/foo.xpi'') ''GET'' NoBody
                     (ex_world [(5, Inr broken_file)])))))"
proof -
  have name: "''foo.xpi'' = last_segment (url_pathname (ex_world s) (URL ''/files/foo.xpi''))"
    for s
    by (simp add: last_segment_def ex_world_def)
  show ?thesis
    using downloadSignedFile_outcomes
        [where addonId = "JStr ''g1''",
          OF name ex_fetch [of "URL ''/files/foo.xpi''" "''GET''" NoBody 5 signed_file]]
      downloadSignedFile_outcomes
        [where addonId = "JStr ''g1''",
          OF name ex_fetch [of "URL ''/files/foo.xpi''" "''GET''" NoBody 5 broken_file]]
    by (simp add: ex_fetch)
       (simp add: ex_world_def ex_client_def signed_file_def broken_file_def
          error_to_string_def)
qed

section \<open>The client's timeouts\<close>

text \<open>
  C10. The client \<open>signAddon\<close> constructs has both poll intervals at their default of
  1000 ms, whatever the parameters; with a timeout given, both its validation timeout
  and its approval timeout are that timeout; only with the timeout left undefined do
  they keep the constructor's defaults of 300000 ms and 900000 ms.
\<close>

theorem signAddon_client_timeouts:
  "validationCheckInterval (signAddon_client w p) = 1000
   \<and> approvalCheckInterval (signAddon_client w p) = 1000
   \<and> (case timeout p of
         Some t \<Rightarrow>
           validationCheckTimeout (signAddon_client w p) = t
           \<and> approvalCheckTimeout (signAddon_client w p) = t
       | None \<Rightarrow>
           validationCheckTimeout (signAddon_client w p) = 300000
           \<and> approvalCheckTimeout (signAddon_client w p) = 900000)"
  by (simp add: signAddon_client_def Client_def Let_def split: option.splits)

section \<open>The two workflows\<close>

lemma evolves_fetch: "evolves w w' \<Longrightarrow> evolves w (snd (fetch c u m b w'))"
  using evolves_fetch_send [of w w' c u m b]
  by (auto simp: fetch_def fetch_receive_def of_sum_def split: prod.splits option.splits
        list.splits sum.splits)


lemma evolves_downloadSignedFile:
  "evolves w w' \<Longrightarrow> evolves w (snd (downloadSignedFile c u a w'))"
  using evolves_fetch [of w w' c u "''GET''" NoBody]
  by (auto simp: downloadSignedFile_def download_try_def saveToFile_def bind_def Let_def
        split: prod.splits outcome.splits option.splits body.splits)

lemma evolves_waitForApproval:
  "evolves w w' \<Longrightarrow> evolves w (snd (waitForApproval c a v w'))"
  by (auto simp: waitForApproval_def split: sum.splits intro!: evolves_waitRetry)

lemma evolves_approve_and_download:
  assumes "evolves w w'"
  shows "evolves w (snd (approve_and_download c a v w'))"
proof -
  obtain o1 w1 where 1: "waitForApproval c a v w' = (o1, w1)"
    by (cases "waitForApproval c a v w'")
  have w1: "evolves w w1"
    using evolves_waitForApproval [OF assms, of c a v] 1 by simp
  show ?thesis
    using 1 w1 evolves_downloadSignedFile [OF w1]
    by (cases o1) (auto simp: approve_and_download_def new_URL_def split: sum.splits)
qed
















end
